theory Spec2Isabelle
  imports Main
begin

section \<open>JavaScript values used by the spreadsheet-to-schema compiler\<close>

text \<open>
  The compiler lives in \<^verbatim>\<open>src/api-gateway/src/helpers/policy-engine.ts\<close> (classes
  \<^verbatim>\<open>XlsxResult\<close> and \<^verbatim>\<open>XlsxToJson\<close>). JavaScript distinguishes a property that
  holds \<^verbatim>\<open>null\<close> from one that holds \<^verbatim>\<open>undefined\<close>; both are falsy, and
  \<^verbatim>\<open>x === null\<close> is false for \<^verbatim>\<open>undefined\<close>. A property that may hold either is
  therefore a \<open>nullable\<close>.
\<close>

datatype 'a nullable = Undefined | Null | Val 'a

text \<open>
  The payload of a mathjs \<^verbatim>\<open>ConstantNode\<close> and the operands of a parsed condition.
  Numeric literals are only carried around and compared, never computed with, so they are
  integers here.
\<close>

datatype jsval = JStr string | JNum int | JBool bool | JNull | JUndefined

text \<open>
  A thrown value. The handlers read it only through \<^verbatim>\<open>error?.toString()\<close>. An error
  object is given by its kind and the message it was constructed with;
  \<^verbatim>\<open>Error.prototype.toString\<close> joins the name and the message with a colon and gives the
  name alone when the message is empty. Any other thrown value is \<open>Thrown\<close> with the
  string its own \<^verbatim>\<open>toString\<close> gives, or without one for \<^verbatim>\<open>null\<close> and \<^verbatim>\<open>undefined\<close>,
  where \<^verbatim>\<open>error?.toString()\<close> is \<^verbatim>\<open>undefined\<close>.
\<close>

datatype exn = Error string | SyntaxError string | TypeError string | Thrown "string option"

definition name_and_message :: "string \<Rightarrow> string \<Rightarrow> string" where
  "name_and_message nm msg = (if msg = [] then nm else nm @ '': '' @ msg)"

fun toString :: "exn \<Rightarrow> string nullable" where
  "toString (Error msg) = Val (name_and_message ''Error'' msg)"
| "toString (SyntaxError msg) = Val (name_and_message ''SyntaxError'' msg)"
| "toString (TypeError msg) = Val (name_and_message ''TypeError'' msg)"
| "toString (Thrown (Some s)) = Val s"
| "toString (Thrown None) = Undefined"

section \<open>The visibility-formula grammar (\<^verbatim>\<open>XlsxToJson.parseCondition\<close>)\<close>

text \<open>
  The expression tree that \<^verbatim>\<open>mathjs.parse\<close> returns, as far as \<^verbatim>\<open>parsFn\<close> looks at
  it: the node's \<^verbatim>\<open>type\<close> tag, \<^verbatim>\<open>fn.name\<close> and \<^verbatim>\<open>args\<close> of a function node,
  \<^verbatim>\<open>name\<close> of a symbol node, \<^verbatim>\<open>value\<close> of a constant node. Every other node type is
  \<open>OtherNode\<close> with its tag.
\<close>

datatype MathNode =
    FunctionNode string "MathNode list"
  | SymbolNode string
  | ConstantNode jsval
  | OtherNode string

text \<open>The object \<^verbatim>\<open>{ field, value, invert }\<close> that \<^verbatim>\<open>parsFn\<close> returns.\<close>

record parsed =
  field :: jsval
  "value" :: jsval
  invert :: bool

text \<open>
  The two \<^verbatim>\<open>EXACT\<close> shapes, in the order of the source (lines 877--896): a symbol
  followed by a constant, then a constant followed by a symbol. In both, \<open>field\<close> is taken
  from \<^verbatim>\<open>args[0]\<close> and \<open>value\<close> from \<^verbatim>\<open>args[1]\<close>.
\<close>

fun exact_args :: "MathNode list \<Rightarrow> bool \<Rightarrow> parsed option" where
  "exact_args [SymbolNode n, ConstantNode v] inverted =
     Some \<lparr>field = JStr n, value = v, invert = inverted\<rparr>"
| "exact_args [ConstantNode v, SymbolNode n] inverted =
     Some \<lparr>field = v, value = JStr n, invert = inverted\<rparr>"
| "exact_args args inverted = None"

fun parsFn :: "MathNode \<Rightarrow> bool \<Rightarrow> parsed option" where
  "parsFn (FunctionNode fn args) inverted =
     (case (if fn = ''EXACT'' \<and> length args = 2 then exact_args args inverted else None) of
        Some r \<Rightarrow> Some r
      | None \<Rightarrow>
          (case args of
             [a] \<Rightarrow> (if fn = ''NOT'' then parsFn a True else None)
           | _ \<Rightarrow> None))"
| "parsFn (SymbolNode n) inverted = None"
| "parsFn (ConstantNode v) inverted = None"
| "parsFn (OtherNode t) inverted = None"

text \<open>The argument of \<^verbatim>\<open>parseCondition\<close>: \<^verbatim>\<open>string | boolean\<close>.\<close>

datatype formulae_arg = Text string | Flag bool

text \<open>
  Its result: \<^verbatim>\<open>{ type: 'const', value }\<close> or
  \<^verbatim>\<open>{ type: 'formulae', field, value, invert }\<close>; \<^verbatim>\<open>null\<close> is \<open>None\<close>.
\<close>

datatype condition_result =
    Const bool
  | Formulae jsval jsval bool

text \<open>
  \<^verbatim>\<open>mathjs\<close> is a library, not code of this repository; its parser is the parameter
  \<open>mathjs_parse\<close>, which either raises or returns a tree. A raise of the parser and the
  \<^verbatim>\<open>throw new Error(...)\<close> of line 914 are both \<open>Inl\<close>.
\<close>

definition parseCondition ::
  "(string \<Rightarrow> exn + MathNode) \<Rightarrow> formulae_arg \<Rightarrow> exn + condition_result option" where
  "parseCondition mathjs_parse formulae =
     (if formulae = Text '''' then Inr None
      else if formulae = Text ''TRUE'' \<or> formulae = Flag True then Inr (Some (Const True))
      else if formulae = Text ''FALSE'' \<or> formulae = Flag False then Inr (Some (Const False))
      else (case formulae of
              Text s \<Rightarrow>
                (case mathjs_parse s of
                   Inl e \<Rightarrow> Inl e
                 | Inr tree \<Rightarrow>
                     (case parsFn tree False of
                        Some node \<Rightarrow>
                          Inr (Some (Formulae (field node) (value node) (invert node)))
                      | None \<Rightarrow> Inl (Error (''Failed to parse formulae: '' @ s @ ''.''))))
            | Flag b \<Rightarrow> Inr None))"

section \<open>The data model\<close>

text \<open>
  A JavaScript \<^verbatim>\<open>Map\<close> keeps its entries in insertion order; \<^verbatim>\<open>set\<close> on a key that is
  present replaces the value in place, \<^verbatim>\<open>size\<close> counts the entries.
\<close>

type_synonym ('k, 'v) jsmap = "('k \<times> 'v) list"

fun map_set :: "'k \<Rightarrow> 'v \<Rightarrow> ('k, 'v) jsmap \<Rightarrow> ('k, 'v) jsmap" where
  "map_set k v [] = [(k, v)]"
| "map_set k v ((k', v') # m) = (if k' = k then (k, v) # m else (k', v') # map_set k v m)"

definition map_get :: "('k, 'v) jsmap \<Rightarrow> 'k \<Rightarrow> 'v option" where
  "map_get m k = map_of m k"

definition map_values :: "('k, 'v) jsmap \<Rightarrow> 'v list" where
  "map_values m = map snd m"

text \<open>Truthiness of the values the code tests with \<^verbatim>\<open>if (x)\<close>, \<^verbatim>\<open>!x\<close> and \<^verbatim>\<open>||\<close>.\<close>

fun truthy_str :: "string nullable \<Rightarrow> bool" where
  "truthy_str (Val s) = (s \<noteq> [])"
| "truthy_str x = False"

fun truthy_bool :: "bool nullable \<Rightarrow> bool" where
  "truthy_bool (Val b) = b"
| "truthy_bool x = False"

text \<open>A value interpolated into a template string.\<close>

fun template :: "string nullable \<Rightarrow> string" where
  "template (Val s) = s"
| "template Null = ''null''"
| "template Undefined = ''undefined''"

text \<open>
  \<^verbatim>\<open>XlsxError\<close> (the class is not among the sources; these are the properties that the
  object literals of \<^verbatim>\<open>policy-engine.ts\<close> give it). A property that a literal leaves out
  is \<open>None\<close>.
\<close>

record XlsxError =
  etype :: string
  "text" :: string
  message :: "string nullable"
  err_worksheet :: "string option"
  err_cell :: "string option"
  err_row :: "int option"
  err_col :: "int option"

text \<open>The font descriptor that \<^verbatim>\<open>xlsxToFont\<close> returns: \<^verbatim>\<open>bold\<close>, \<^verbatim>\<open>color\<close>, \<^verbatim>\<open>size\<close>.\<close>

record font =
  bold :: bool
  color :: string
  size' :: string

text \<open>
  \<^verbatim>\<open>SchemaField\<close>, with the properties that \<^verbatim>\<open>readField\<close>, \<^verbatim>\<open>readFieldParams\<close> and
  \<^verbatim>\<open>addError\<close> read or write. An absent \<^verbatim>\<open>errors\<close> array and an empty one are both
  \<open>[]\<close>: \<^verbatim>\<open>addError\<close> creates the array on the first error and pushes afterwards.
\<close>

record SchemaField =
  name :: string
  description :: string
  required :: bool
  isArray :: bool
  readOnly :: bool
  hidden :: "bool nullable"
  type :: "string nullable"
  format :: "string nullable"
  pattern :: "string nullable"
  unit :: "string nullable"
  unitSystem :: "string nullable"
  customType :: "string nullable"
  property :: "string nullable"
  isRef :: "bool nullable"
  enum :: "string list option"
  font :: "font option"
  textBold :: "bool option"
  textColor :: "string option"
  textSize :: "string option"
  examples :: "string list option"
  errors :: "XlsxError list"

text \<open>An entry of the field-type registry (\<^verbatim>\<open>IFieldTypes\<close>).\<close>

record IFieldTypes =
  ft_name :: string
  ft_type :: "string nullable"
  ft_format :: "string nullable"
  ft_pattern :: "string nullable"
  ft_unit :: "string nullable"
  ft_unitSystem :: "string nullable"
  ft_customType :: "string nullable"
  ft_hidden :: "bool nullable"
  ft_isRef :: "bool nullable"

text \<open>
  Modelled from the spec: the class \<^verbatim>\<open>XlsxSchemaConditions\<close> of
  \<^verbatim>\<open>./models/schema-condition\<close> is not among the sources. The spec (section 3) describes a
  condition as a driving field reference, a comparison value and the (dependent field,
  invert flag) pairs. Field objects are shared between the sheet's field array, its field
  cache and the conditions, so a field reference is the field's address: its index in the
  sheet's field array. A dependent that the field cache does not know is \<open>None\<close>.
\<close>

record XlsxSchemaConditions =
  c_field :: nat
  c_value :: jsval
  c_fields :: "(nat option \<times> bool) list"

datatype SchemaCategory = POLICY | TOOL

text \<open>
  Modelled from the spec: the class \<^verbatim>\<open>Schema\<close> of \<^verbatim>\<open>@guardian/interfaces\<close> is not among
  the sources. These are the properties that \<^verbatim>\<open>policy-engine.ts\<close> reads or writes; a new
  schema has no fields and no conditions (spec, section 3). The JSON document that
  \<^verbatim>\<open>update\<close> and \<^verbatim>\<open>updateRefs\<close> maintain is left out.
\<close>

record Schema =
  s_id :: "string nullable"
  s_iri :: "string nullable"
  s_name :: string
  s_description :: "string nullable"
  s_version :: "string nullable"
  s_status :: "string nullable"
  s_entity :: "string nullable"
  s_category :: SchemaCategory
  s_messageId :: "string nullable"
  s_fields :: "SchemaField list"
  s_conditions :: "XlsxSchemaConditions list"
  s_errors :: "XlsxError list"

definition new_Schema :: Schema where
  "new_Schema =
     \<lparr>s_id = Undefined, s_iri = Undefined, s_name = [], s_description = Undefined,
      s_version = Undefined, s_status = Undefined, s_entity = Undefined,
      s_category = POLICY, s_messageId = Undefined, s_fields = [], s_conditions = [],
      s_errors = []\<rparr>"

record PolicyTool =
  pt_uuid :: "string nullable"
  pt_name :: "string nullable"
  pt_messageId :: "string nullable"

record ICache =
  cache_name :: string
  cache_iri :: "string nullable"
  cache_toolId :: "string nullable"

record ITool =
  tool_uuid :: "string nullable"
  tool_name :: "string nullable"
  tool_messageId :: "string nullable"

record ILink =
  link_name :: string
  link_worksheet :: "string nullable"

record Hyperlink =
  hl_worksheet :: "string nullable"

section \<open>The result aggregator (\<^verbatim>\<open>XlsxResult\<close>)\<close>

record XlsxResult =
  schemas :: "Schema list"
  tools :: "PolicyTool list"
  r_errors :: "XlsxError list"
  toolsCache :: "(string nullable, ITool) jsmap"
  schemaWorksheetCache :: "(string, ICache) jsmap"
  schemaNameCache :: "(string, ICache) jsmap"
  linkCache :: "(string, ILink) jsmap"

definition new_XlsxResult :: XlsxResult where
  "new_XlsxResult =
     \<lparr>schemas = [], tools = [], r_errors = [], toolsCache = [],
      schemaWorksheetCache = [], schemaNameCache = [], linkCache = []\<rparr>"

definition addTool :: "string \<Rightarrow> string \<Rightarrow> string nullable \<Rightarrow> XlsxResult \<Rightarrow> XlsxResult" where
  "addTool worksheet_name nm messageId res =
     (let cache = \<lparr>cache_name = nm, cache_iri = Undefined, cache_toolId = messageId\<rparr>
      in res\<lparr>toolsCache :=
               map_set messageId
                 \<lparr>tool_uuid = messageId, tool_name = messageId, tool_messageId = messageId\<rparr>
                 (toolsCache res),
             schemaWorksheetCache := map_set worksheet_name cache (schemaWorksheetCache res),
             schemaNameCache := map_set (''tool-schema:'' @ nm) cache (schemaNameCache res)\<rparr>)"

definition addSchema :: "string \<Rightarrow> string \<Rightarrow> Schema \<Rightarrow> XlsxResult \<Rightarrow> XlsxResult" where
  "addSchema worksheet_name nm schema res =
     (let cache = \<lparr>cache_name = nm, cache_iri = s_iri schema, cache_toolId = Undefined\<rparr>
      in res\<lparr>schemas := schemas res @ [schema],
             schemaWorksheetCache := map_set worksheet_name cache (schemaWorksheetCache res),
             schemaNameCache := map_set nm cache (schemaNameCache res)\<rparr>)"

text \<open>
  \<^verbatim>\<open>addError(error, target)\<close> pushes the error on the global list and, when the target
  is not \<^verbatim>\<open>null\<close>, on the target's own list. One function per kind of target.
\<close>

definition addError :: "XlsxError \<Rightarrow> XlsxResult \<Rightarrow> XlsxResult" where
  "addError error res = res\<lparr>r_errors := r_errors res @ [error]\<rparr>"

definition addError_field ::
  "XlsxError \<Rightarrow> SchemaField \<Rightarrow> XlsxResult \<Rightarrow> SchemaField \<times> XlsxResult" where
  "addError_field error fld res = (fld\<lparr>errors := errors fld @ [error]\<rparr>, addError error res)"

definition addError_schema ::
  "XlsxError \<Rightarrow> Schema \<Rightarrow> XlsxResult \<Rightarrow> Schema \<times> XlsxResult" where
  "addError_schema error schema res =
     (schema\<lparr>s_errors := s_errors schema @ [error]\<rparr>, addError error res)"

text \<open>Decimal digits of a number, for the id \<^verbatim>\<open>`link_${this._linkCache.size}`\<close>.\<close>

fun string_of_nat :: "nat \<Rightarrow> string" where
  "string_of_nat n =
     (if n < 10 then [''0123456789'' ! n]
      else string_of_nat (n div 10) @ [''0123456789'' ! (n mod 10)])"

declare string_of_nat.simps [simp del]

definition addLink :: "string \<Rightarrow> Hyperlink option \<Rightarrow> XlsxResult \<Rightarrow> string \<times> XlsxResult" where
  "addLink nm hyperlink res =
     (let id = ''link_'' @ string_of_nat (length (linkCache res));
          ws = (case hyperlink of Some h \<Rightarrow> hl_worksheet h | None \<Rightarrow> Null)
      in (id, res\<lparr>linkCache :=
                     map_set id \<lparr>link_name = nm, link_worksheet = ws\<rparr> (linkCache res)\<rparr>))"

definition clear :: "XlsxResult \<Rightarrow> XlsxResult" where
  "clear res =
     res\<lparr>schemas := [], tools := [], toolsCache := [], schemaWorksheetCache := [],
         schemaNameCache := [], linkCache := []\<rparr>"

text \<open>\<^verbatim>\<open>a || b\<close> on two lookups: the first if it is defined, else the second.\<close>

definition or_else :: "'a option \<Rightarrow> 'a option \<Rightarrow> 'a option" where
  "or_else a b = (case a of Some x \<Rightarrow> Some x | None \<Rightarrow> b)"

text \<open>
  Lines 418--432 of \<^verbatim>\<open>getSubSchema\<close>: the IRI that the field's link resolves to, if
  any. \<^verbatim>\<open>Map.get\<close> with a key that is not a string finds nothing.
\<close>

definition resolveLink :: "XlsxResult \<Rightarrow> string nullable \<Rightarrow> string option" where
  "resolveLink res ty =
     (case (case ty of Val k \<Rightarrow> map_get (linkCache res) k | _ \<Rightarrow> None) of
        None \<Rightarrow> None
      | Some link \<Rightarrow>
          (let cache0 =
                 (if truthy_str (link_worksheet link)
                  then (case link_worksheet link of
                          Val w \<Rightarrow> map_get (schemaWorksheetCache res) w
                        | _ \<Rightarrow> None)
                  else None);
               cache =
                 (if cache0 = None \<and> link_name link \<noteq> []
                  then or_else (map_get (schemaNameCache res) (link_name link))
                         (map_get (schemaNameCache res) (''tool-schema:'' @ link_name link))
                  else cache0)
           in (case cache of
                 Some c \<Rightarrow> (if truthy_str (cache_iri c)
                            then (case cache_iri c of Val i \<Rightarrow> Some i | _ \<Rightarrow> None)
                            else None)
               | None \<Rightarrow> None)))"

text \<open>The error of lines 433--438, built from the field's type before it is overwritten.\<close>

definition sub_schema_not_found :: "SchemaField \<Rightarrow> XlsxError" where
  "sub_schema_not_found fld =
     \<lparr>etype = ''error'',
      text = ''Sub-schema ('' @ template (type fld) @ '') not found.'',
      message = Val (''Sub-schema ('' @ template (type fld) @ '') not found.''),
      err_worksheet = Some [], err_cell = None, err_row = None, err_col = None\<rparr>"

text \<open>
  \<^verbatim>\<open>getSubSchema\<close> returns the value of its \<^verbatim>\<open>return\<close> statement together with the
  field and the result object as it leaves them. Its last two statements record the error
  and assign \<^verbatim>\<open>field.type = null\<close>; control then reaches the end of the function, whose
  value is \<^verbatim>\<open>undefined\<close>.
\<close>

definition getSubSchema ::
  "SchemaField \<Rightarrow> XlsxResult \<Rightarrow> string nullable \<times> SchemaField \<times> XlsxResult" where
  "getSubSchema fld res =
     (if type fld = Val ''#GeoJSON'' then (Val ''#GeoJSON'', fld, res)
      else (case resolveLink res (type fld) of
              Some iri \<Rightarrow> (Val iri, fld, res)
            | None \<Rightarrow>
                (let (fld', res') = addError_field (sub_schema_not_found fld) fld res
                 in (Undefined, fld'\<lparr>type := Null\<rparr>, res'))))"

text \<open>The error of the handlers of \<^verbatim>\<open>updateSchemas\<close> and \<^verbatim>\<open>parse\<close>.\<close>

definition failed_to_parse_file :: "exn \<Rightarrow> XlsxError" where
  "failed_to_parse_file error =
     \<lparr>etype = ''error'', text = ''Failed to parse file.'', message = toString error,
      err_worksheet = None, err_cell = None, err_row = None, err_col = None\<rparr>"

text \<open>The body of the inner loop of \<^verbatim>\<open>updateSchemas\<close> (lines 446--448).\<close>

definition updateField :: "SchemaField \<Rightarrow> XlsxResult \<Rightarrow> SchemaField \<times> XlsxResult" where
  "updateField fld res =
     (if truthy_bool (isRef fld)
      then (let (ret, fld', res') = getSubSchema fld res in (fld'\<lparr>type := ret\<rparr>, res'))
      else (fld, res))"

fun updateFields :: "SchemaField list \<Rightarrow> XlsxResult \<Rightarrow> SchemaField list \<times> XlsxResult" where
  "updateFields [] res = ([], res)"
| "updateFields (fld # flds) res =
     (let (fld', res') = updateField fld res;
          (flds', res'') = updateFields flds res'
      in (fld' # flds', res''))"

text \<open>
  The outer loop. \<^verbatim>\<open>Schema.updateRefs\<close> is not among the sources: it is the parameter
  \<open>updateRefs\<close>, given the schema array as it stands and the schema, and it either raises
  (\<open>Some\<close>) or rewrites the schema's document, which the model leaves out. The first
  argument holds the schemas already visited, the second those still to visit. A raise
  leaves the loop; the schemas keep what was written to them before.
\<close>

fun updateSchemas_loop ::
  "(Schema list \<Rightarrow> Schema \<Rightarrow> exn option) \<Rightarrow> Schema list \<Rightarrow> Schema list \<Rightarrow> XlsxResult
     \<Rightarrow> Schema list \<times> XlsxResult \<times> exn option" where
  "updateSchemas_loop updateRefs visited [] res = (visited, res, None)"
| "updateSchemas_loop updateRefs visited (schema # rest) res =
     (let (flds, res') = updateFields (s_fields schema) res;
          schema' = schema\<lparr>s_fields := flds\<rparr>
      in (case updateRefs (visited @ schema' # rest) schema' of
            Some error \<Rightarrow> (visited @ schema' # rest, res', Some error)
          | None \<Rightarrow> updateSchemas_loop updateRefs (visited @ [schema']) rest res'))"

definition updateSchemas ::
  "(Schema list \<Rightarrow> Schema \<Rightarrow> exn option) \<Rightarrow> XlsxResult \<Rightarrow> XlsxResult" where
  "updateSchemas updateRefs res =
     (let (ss, res', raised) = updateSchemas_loop updateRefs [] (schemas res) res;
          res'' = res'\<lparr>schemas := ss\<rparr>
      in (case raised of
            None \<Rightarrow> res''
          | Some error \<Rightarrow> addError (failed_to_parse_file error) res''))"

text \<open>The summary of a schema and the document that \<^verbatim>\<open>toJson\<close> returns.\<close>

record schema_json =
  j_id :: "string nullable"
  j_iri :: "string nullable"
  j_name :: string
  j_description :: "string nullable"
  j_version :: "string nullable"
  j_status :: "string nullable"

record result_json =
  json_schemas :: "schema_json list"
  json_tools :: "ITool list"
  json_errors :: "XlsxError list"

definition toJson :: "XlsxResult \<Rightarrow> result_json" where
  "toJson res =
     \<lparr>json_schemas =
        map (\<lambda>s. \<lparr>j_id = s_id s, j_iri = s_iri s, j_name = s_name s,
                  j_description = s_description s, j_version = s_version s,
                  j_status = s_status s\<rparr>) (schemas res),
      json_tools = map_values (toolsCache res),
      json_errors = r_errors res\<rparr>"

section \<open>The collaborators of the sheet parser\<close>

text \<open>
  The classes \<^verbatim>\<open>Worksheet\<close>, \<^verbatim>\<open>Table\<close>, \<^verbatim>\<open>FieldTypes\<close>, the enum \<^verbatim>\<open>Dictionary\<close> and the
  value converters are imported by \<^verbatim>\<open>policy-engine.ts\<close> and are not among the sources.
  The parser is therefore stated over them: each is a record of the operations that the
  parser calls, and every theorem about the parser holds for all of them.

  A worksheet is the grid as the parser observes it. Reading a cell is an observation of
  a grid that does not change during the parse, and the reads are total here: the
  \<^verbatim>\<open>catch\<close> handlers of \<^verbatim>\<open>readField\<close>, \<^verbatim>\<open>readFieldParams\<close> and \<^verbatim>\<open>parseSheet\<close>, which
  guard nothing but such reads and the converters, have no raise to handle in this model.
  The handlers that a statement of \<^verbatim>\<open>policy-engine.ts\<close> itself can reach are modelled.
\<close>

datatype Dictionary =
    SCHEMA_NAME | SCHEMA_DESCRIPTION | SCHEMA_TYPE | SCHEMA_TOOL | SCHEMA_TOOL_ID
  | REQUIRED_FIELD | FIELD_TYPE | PARAMETER | VISIBILITY | QUESTION
  | ALLOW_MULTIPLE_ANSWERS | ANSWER | AUTO_CALCULATE

text \<open>A cell: what \<^verbatim>\<open>getLink\<close>, \<^verbatim>\<open>getFormat\<close>, \<^verbatim>\<open>getList\<close>, \<^verbatim>\<open>getFont\<close>, ... return.\<close>

record 'style Cell =
  getLink :: "Hyperlink option"
  getFormat :: string
  getList :: "string list"
  getFont :: 'style
  isFormulae :: bool
  getFormulae :: string
  isValue :: bool
  getCellValue :: string

text \<open>\<^verbatim>\<open>range.s.c\<close>, \<^verbatim>\<open>range.s.r\<close>, \<^verbatim>\<open>range.e.c\<close>, \<^verbatim>\<open>range.e.r\<close>.\<close>

record range =
  s_c :: int
  s_r :: int
  e_c :: int
  e_r :: int

text \<open>
  A cell value read with \<^verbatim>\<open>getValue<string>\<close> is a string; the empty string stands for
  an empty cell (the code only tests such a value for truthiness).
\<close>

record 'style Worksheet =
  ws_name :: string
  getRange :: range
  getValue :: "int \<Rightarrow> int \<Rightarrow> string"
  getPath :: "int \<Rightarrow> int \<Rightarrow> string"
  getCell :: "int \<Rightarrow> int \<Rightarrow> 'style Cell"
  outColumnRange :: "int \<Rightarrow> bool"

text \<open>
  The operations of the header table, over the table's state \<open>'t\<close>. \<open>getErrorHeader\<close>
  gives the \<^verbatim>\<open>title\<close> of the header it returns; \<open>end_r\<close> is \<^verbatim>\<open>table.end.r\<close>.
\<close>

record 't Table =
  new_Table :: "int \<Rightarrow> int \<Rightarrow> 't"
  isName :: "'t \<Rightarrow> string \<Rightarrow> bool"
  isSchemaHeader :: "'t \<Rightarrow> string \<Rightarrow> bool"
  isFieldHeader :: "'t \<Rightarrow> string \<Rightarrow> bool"
  setRow :: "string \<Rightarrow> int \<Rightarrow> 't \<Rightarrow> 't"
  setCol :: "string \<Rightarrow> int \<Rightarrow> 't \<Rightarrow> 't"
  getErrorHeader :: "'t \<Rightarrow> string option"
  setEnd :: "int \<Rightarrow> int \<Rightarrow> 't \<Rightarrow> 't"
  getRow :: "'t \<Rightarrow> string \<Rightarrow> int"
  getCol :: "'t \<Rightarrow> string \<Rightarrow> int"
  end_r :: "'t \<Rightarrow> int"

text \<open>
  The other imports: the string value of each \<^verbatim>\<open>Dictionary\<close> member, the registry lookup
  \<^verbatim>\<open>FieldTypes.findByName\<close>, the value converters, \<^verbatim>\<open>mathjs.parse\<close> and
  \<^verbatim>\<open>SchemaHelper.updateIRI\<close> (as the IRI it assigns). \<^verbatim>\<open>xlsxToFont\<close> is called with a
  cell's font and with the text of a parameter cell.
\<close>

record 'style Modules =
  dict :: "Dictionary \<Rightarrow> string"
  findByName :: "string \<Rightarrow> IFieldTypes option"
  xlsxToBoolean :: "string \<Rightarrow> bool"
  xlsxToArray :: "string \<Rightarrow> bool \<Rightarrow> string list"
  xlsxToUnit :: "string \<Rightarrow> string nullable"
  xlsxToFont :: "'style + string \<Rightarrow> font"
  xlsxToEntity :: "string \<Rightarrow> string nullable"
  mathjs_parse :: "string \<Rightarrow> exn + MathNode"
  updateIRI :: "Schema \<Rightarrow> string nullable"

section \<open>The field reader (\<^verbatim>\<open>readField\<close>, \<^verbatim>\<open>readFieldParams\<close>)\<close>

text \<open>\<^verbatim>\<open>param.split(/\r?\n/)\<close>: the pieces between line feeds, each optionally preceded by a
  carriage return.\<close>

fun split_newline :: "string \<Rightarrow> string list" where
  "split_newline [] = [[]]"
| "split_newline [c] = (if c = CHR 0x0A then [[], []] else [[c]])"
| "split_newline (c # d # cs) =
     (if c = CHR 0x0D \<and> d = CHR 0x0A then [] # split_newline cs
      else if c = CHR 0x0A then [] # split_newline (d # cs)
      else (case split_newline (d # cs) of
              l # ls \<Rightarrow> (c # l) # ls
            | [] \<Rightarrow> [[c]]))"

text \<open>The four assignments \<^verbatim>\<open>field.font = font; field.textBold = font.bold; ...\<close>.\<close>

definition setFont :: "font \<Rightarrow> SchemaField \<Rightarrow> SchemaField" where
  "setFont fnt fld =
     fld\<lparr>font := Some fnt, textBold := Some (bold fnt), textColor := Some (color fnt),
         textSize := Some (size' fnt)\<rparr>"

text \<open>
  \<^verbatim>\<open>readFieldParams\<close>, lines 728--775: first the values derived from the cell's format,
  validation list or font, then, if the parameter cell is not empty, the same properties
  from the parameter.
\<close>

definition readFieldParams ::
  "'style Modules \<Rightarrow> 't Table \<Rightarrow> 't \<Rightarrow> 'style Worksheet \<Rightarrow> SchemaField \<Rightarrow> IFieldTypes \<Rightarrow> int
     \<Rightarrow> SchemaField" where
  "readFieldParams M T table ws fld fieldType row =
     (let param = getValue ws (getCol T table (dict M PARAMETER)) row;
          f1 = (if ft_name fieldType = ''Prefix''
                then fld\<lparr>unit :=
                       xlsxToUnit M (getFormat (getCell ws (getCol T table (dict M ANSWER)) row))\<rparr>
                else fld);
          f2 = (if ft_name fieldType = ''Postfix''
                then f1\<lparr>unit :=
                       xlsxToUnit M (getFormat (getCell ws (getCol T table (dict M ANSWER)) row))\<rparr>
                else f1);
          f3 = (if ft_name fieldType = ''Enum''
                then f2\<lparr>enum :=
                       Some (getList (getCell ws (getCol T table (dict M ANSWER)) row))\<rparr>
                else f2);
          f4 = (if ft_name fieldType = ''Help Text''
                then setFont
                       (xlsxToFont M
                          (Inl (getFont (getCell ws (getCol T table (dict M QUESTION)) row))))
                       f3
                else f3)
      in if param \<noteq> [] then
           (let g1 = (if ft_name fieldType = ''Prefix'' then f4\<lparr>unit := Val param\<rparr> else f4);
                g2 = (if ft_name fieldType = ''Postfix'' then g1\<lparr>unit := Val param\<rparr> else g1);
                g3 = (if ft_name fieldType = ''Enum''
                      then g2\<lparr>enum := Some (split_newline param)\<rparr> else g2);
                g4 = (if ft_name fieldType = ''Help Text''
                      then setFont (xlsxToFont M (Inr param)) g3 else g3)
            in g4)
         else f4)"

text \<open>The field object that \<^verbatim>\<open>readField\<close> starts from (lines 631--646).\<close>

definition new_SchemaField :: SchemaField where
  "new_SchemaField =
     \<lparr>name = [], description = [], required = False, isArray = False, readOnly = False,
      hidden = Val False, type = Null, format = Null, pattern = Null, unit = Null,
      unitSystem = Null, customType = Null, property = Null, isRef = Null,
      enum = None, font = None, textBold = None, textColor = None, textSize = None,
      examples = None, errors = []\<rparr>"

text \<open>The error of lines 685--693.\<close>

definition unknown_field_type ::
  "'style Modules \<Rightarrow> 't Table \<Rightarrow> 't \<Rightarrow> 'style Worksheet \<Rightarrow> int \<Rightarrow> XlsxError" where
  "unknown_field_type M T table ws row =
     \<lparr>etype = ''error'', text = ''Unknown field type.'',
      message = Val ''Unknown field type.'',
      err_worksheet = Some (ws_name ws),
      err_cell = Some (getPath ws (getCol T table (dict M FIELD_TYPE)) row),
      err_row = Some row,
      err_col = Some (getCol T table (dict M FIELD_TYPE))\<rparr>"

text \<open>
  \<^verbatim>\<open>readField\<close>, lines 648--706. The result is the returned field (\<open>None\<close> for the
  \<^verbatim>\<open>null\<close> of the handler, which no path of the model reaches) and the result object.
  \<^verbatim>\<open>getFullPath\<close> is read into a variable that is not used.
\<close>

definition readField ::
  "'style Modules \<Rightarrow> 't Table \<Rightarrow> 't \<Rightarrow> 'style Worksheet \<Rightarrow> int \<Rightarrow> XlsxResult
     \<Rightarrow> SchemaField option \<times> XlsxResult" where
  "readField M T table ws row res =
     (let nm = getPath ws (getCol T table (dict M ANSWER)) row;
          ty = getValue ws (getCol T table (dict M FIELD_TYPE)) row;
          descr = getValue ws (getCol T table (dict M QUESTION)) row;
          req = xlsxToBoolean M (getValue ws (getCol T table (dict M REQUIRED_FIELD)) row);
          isArr =
            xlsxToBoolean M (getValue ws (getCol T table (dict M ALLOW_MULTIPLE_ANSWERS)) row);
          fld = new_SchemaField\<lparr>name := nm, description := descr, required := req,
                  isArray := isArr\<rparr>;
          (fld1, res1) =
            (case findByName M ty of
               Some fieldType \<Rightarrow>
                 (readFieldParams M T table ws
                    (fld\<lparr>type := ft_type fieldType, format := ft_format fieldType,
                         pattern := ft_pattern fieldType, unit := ft_unit fieldType,
                         unitSystem := ft_unitSystem fieldType,
                         customType := ft_customType fieldType,
                         hidden := ft_hidden fieldType, isRef := ft_isRef fieldType\<rparr>)
                    fieldType row,
                  res)
             | None \<Rightarrow>
                 if ty \<noteq> [] then
                   (let hyperlink = getLink (getCell ws (getCol T table (dict M FIELD_TYPE)) row);
                        (id, res') = addLink ty hyperlink res
                    in (fld\<lparr>type := Val id, isRef := Val True\<rparr>, res'))
                 else
                   addError_field (unknown_field_type M T table ws row) fld res);
          fld2 =
            (if \<not> truthy_bool (isRef fld1) then
               (let answer = getValue ws (getCol T table (dict M ANSWER)) row
                in if ty = dict M AUTO_CALCULATE then fld1
                   else if answer \<noteq> [] then
                     fld1\<lparr>examples := Some (xlsxToArray M answer (isArray fld1))\<rparr>
                   else fld1)
             else fld1)
      in (Some fld2, res1))"

section \<open>The condition reader (\<^verbatim>\<open>readCondition\<close>)\<close>

text \<open>
  Modelled from the spec: the methods of \<^verbatim>\<open>XlsxSchemaConditions\<close>, which is not among
  the sources. The constructor takes the driving field and the comparison value; by
  section 4.5 of the spec a driving field that the sheet does not have is an error raised
  inside \<^verbatim>\<open>readCondition\<close> (the text of that error is not given by the spec).
  \<^verbatim>\<open>equal\<close> holds for the same driving field and comparison value (section 3),
  \<^verbatim>\<open>addField\<close> appends a dependent with its invert flag, \<^verbatim>\<open>toJson\<close> returns the
  condition.
\<close>

definition new_XlsxSchemaConditions :: "nat option \<Rightarrow> jsval \<Rightarrow> exn + XlsxSchemaConditions" where
  "new_XlsxSchemaConditions target v =
     (case target of
        None \<Rightarrow> Inl (TypeError ''Cannot read properties of undefined'')
      | Some a \<Rightarrow> Inr \<lparr>c_field = a, c_value = v, c_fields = []\<rparr>)"

definition equal :: "SchemaField list \<Rightarrow> XlsxSchemaConditions \<Rightarrow> jsval \<Rightarrow> jsval \<Rightarrow> bool" where
  "equal flds c f v = (JStr (name (flds ! c_field c)) = f \<and> c_value c = v)"

definition addField :: "nat option \<Rightarrow> bool \<Rightarrow> XlsxSchemaConditions \<Rightarrow> XlsxSchemaConditions" where
  "addField fld inverted c = c\<lparr>c_fields := c_fields c @ [(fld, inverted)]\<rparr>"

definition condition_toJson :: "XlsxSchemaConditions \<Rightarrow> XlsxSchemaConditions" where
  "condition_toJson c = c"

text \<open>
  What one sheet's parse mutates: the field objects (by address), the condition objects
  (by address) and the result object. \<^verbatim>\<open>fieldCache\<close> maps a name to a field address,
  \<^verbatim>\<open>conditionCache\<close> is an array of condition addresses.
\<close>

record sheet =
  sh_fields :: "SchemaField list"
  sh_conditions :: "XlsxSchemaConditions list"
  sh_result :: XlsxResult

text \<open>\<^verbatim>\<open>xlsxResult.addError(error, field)\<close> where \<^verbatim>\<open>field\<close> is a cache lookup.\<close>

definition addError_at :: "XlsxError \<Rightarrow> nat option \<Rightarrow> sheet \<Rightarrow> sheet" where
  "addError_at error target st =
     (case target of
        None \<Rightarrow> st\<lparr>sh_result := addError error (sh_result st)\<rparr>
      | Some a \<Rightarrow>
          st\<lparr>sh_fields :=
               (sh_fields st)[a := (sh_fields st ! a)\<lparr>errors := errors (sh_fields st ! a) @ [error]\<rparr>],
             sh_result := addError error (sh_result st)\<rparr>)"

text \<open>\<^verbatim>\<open>field.hidden || !value\<close>.\<close>

definition hidden_or :: "bool nullable \<Rightarrow> bool \<Rightarrow> bool nullable" where
  "hidden_or h b = (if truthy_bool h then h else Val b)"

definition condition_error ::
  "'t Table \<Rightarrow> 't \<Rightarrow> 'style Modules \<Rightarrow> 'style Worksheet \<Rightarrow> int \<Rightarrow> exn \<Rightarrow> XlsxError" where
  "condition_error T table M ws row error =
     \<lparr>etype = ''error'', text = ''Failed to parse condition.'', message = toString error,
      err_worksheet = Some (ws_name ws),
      err_cell = Some (getPath ws (getCol T table (dict M VISIBILITY)) row),
      err_row = Some row,
      err_col = Some (getCol T table (dict M VISIBILITY))\<rparr>"

text \<open>
  \<^verbatim>\<open>readCondition\<close>, lines 795--850. The result is the returned condition (its address,
  \<open>None\<close> for \<^verbatim>\<open>undefined\<close>) and the state. The inner handler records a raise of
  \<^verbatim>\<open>parseCondition\<close> and leaves \<^verbatim>\<open>result\<close> undefined; the outer handler records a raise
  of \<^verbatim>\<open>field.hidden\<close> on an undefined field or of the constructor. A condition found in
  \<^verbatim>\<open>conditionCache\<close> is updated where it is and returned, as a new one is.
\<close>

definition readCondition ::
  "'style Modules \<Rightarrow> 't Table \<Rightarrow> 't \<Rightarrow> 'style Worksheet \<Rightarrow> (string, nat) jsmap \<Rightarrow> nat list
     \<Rightarrow> int \<Rightarrow> sheet \<Rightarrow> nat option \<times> sheet" where
  "readCondition M T table ws fieldCache conditionCache row st =
     (let nm = getPath ws (getCol T table (dict M ANSWER)) row;
          fld = map_get fieldCache nm
      in if outColumnRange ws (getCol T table (dict M VISIBILITY)) then (None, st)
         else
           (let cell = getCell ws (getCol T table (dict M VISIBILITY)) row;
                parsed =
                  (if isFormulae cell
                   then parseCondition (mathjs_parse M) (Text (getFormulae cell))
                   else if isValue cell
                   then parseCondition (mathjs_parse M)
                          (Flag (xlsxToBoolean M (getCellValue cell)))
                   else Inr None);
                (result, st1) =
                  (case parsed of
                     Inl error \<Rightarrow>
                       (None, addError_at (condition_error T table M ws row error) fld st)
                   | Inr r \<Rightarrow> (r, st))
            in (case result of
                  None \<Rightarrow> (None, st1)
                | Some (Const v) \<Rightarrow>
                    (case fld of
                       None \<Rightarrow>
                         (None,
                          addError_at
                            (condition_error T table M ws row
                               (TypeError
                                  (''Cannot read properties of undefined (reading ''
                                   @ [CHR 0x27] @ ''hidden'' @ [CHR 0x27] @ '')'')))
                            fld st1)
                     | Some a \<Rightarrow>
                         (None,
                          st1\<lparr>sh_fields :=
                                (sh_fields st1)
                                  [a := (sh_fields st1 ! a)
                                          \<lparr>hidden := hidden_or (hidden (sh_fields st1 ! a)) (\<not> v)\<rparr>]\<rparr>))
                | Some (Formulae f v inverted) \<Rightarrow>
                    (case find (\<lambda>a. equal (sh_fields st1) (sh_conditions st1 ! a) f v)
                            conditionCache of
                       Some a \<Rightarrow>
                         (Some a,
                          st1\<lparr>sh_conditions :=
                                (sh_conditions st1)
                                  [a := addField fld inverted (sh_conditions st1 ! a)]\<rparr>)
                     | None \<Rightarrow>
                         (let target = (case f of JStr s \<Rightarrow> map_get fieldCache s | _ \<Rightarrow> None)
                          in (case new_XlsxSchemaConditions target v of
                                Inl error \<Rightarrow>
                                  (None,
                                   addError_at (condition_error T table M ws row error) fld st1)
                              | Inr c \<Rightarrow>
                                  (Some (length (sh_conditions st1)),
                                   st1\<lparr>sh_conditions :=
                                         sh_conditions st1 @ [addField fld inverted c]\<rparr>)))))))"

section \<open>The sheet parser (\<^verbatim>\<open>parseSheet\<close>) and the driver (\<^verbatim>\<open>parse\<close>)\<close>

text \<open>
  The first loop of \<^verbatim>\<open>parseSheet\<close> (lines 527--538), from \<open>row\<close> on: it returns the row
  at which it stops and the table.
\<close>

function scanSchemaHeaders ::
  "'style Modules \<Rightarrow> 't Table \<Rightarrow> 'style Worksheet \<Rightarrow> int \<Rightarrow> 't \<Rightarrow> int \<times> 't" where
  "scanSchemaHeaders M T ws row table =
     (if row < e_r (getRange ws) then
        (let title = getValue ws (s_c (getRange ws)) row;
             t1 = (if row = s_r (getRange ws) \<and> isName T table title
                   then setRow T (dict M SCHEMA_NAME) row table else table);
             t2 = (if isSchemaHeader T t1 title then setRow T title row t1 else t1)
         in if isFieldHeader T t2 title then (row, t2)
            else scanSchemaHeaders M T ws (row + 1) t2)
      else (row, table))"
  by pat_completeness auto
termination
  by (relation "measure (\<lambda>(M, T, ws, row, table). nat (e_r (getRange ws) - row))") auto

declare scanSchemaHeaders.simps [simp del]

text \<open>The second loop (lines 540--545), over the columns of the row found.\<close>

definition scanFieldHeaders :: "'t Table \<Rightarrow> 'style Worksheet \<Rightarrow> int \<Rightarrow> 't \<Rightarrow> 't" where
  "scanFieldHeaders T ws row table =
     foldl (\<lambda>t col. let v = getValue ws col row
                     in if isFieldHeader T t v then setCol T v col t else t)
       table [s_c (getRange ws) .. e_c (getRange ws) - 1]"

text \<open>The field loop (lines 583--592): the field array, the field cache, the result.\<close>

definition readFields ::
  "'style Modules \<Rightarrow> 't Table \<Rightarrow> 't \<Rightarrow> 'style Worksheet \<Rightarrow> XlsxResult
     \<Rightarrow> SchemaField list \<times> (string, nat) jsmap \<times> XlsxResult" where
  "readFields M T table ws res =
     foldl (\<lambda>(flds, fieldCache, res1) row.
              (case readField M T table ws row res1 of
                 (Some fld, res2) \<Rightarrow>
                   (flds @ [fld], map_set (name fld) (length flds) fieldCache, res2)
               | (None, res2) \<Rightarrow> (flds, fieldCache, res2)))
       ([], [], res) [end_r T table + 1 .. e_r (getRange ws) - 1]"

text \<open>
  The condition loop (lines 594--608): every condition that \<^verbatim>\<open>readCondition\<close> returns is
  pushed on \<^verbatim>\<open>conditionCache\<close>.
\<close>

definition readConditions ::
  "'style Modules \<Rightarrow> 't Table \<Rightarrow> 't \<Rightarrow> 'style Worksheet \<Rightarrow> (string, nat) jsmap \<Rightarrow> sheet
     \<Rightarrow> nat list \<times> sheet" where
  "readConditions M T table ws fieldCache st =
     foldl (\<lambda>(conditionCache, st1) row.
              (case readCondition M T table ws fieldCache conditionCache row st1 of
                 (Some condition, st2) \<Rightarrow> (conditionCache @ [condition], st2)
               | (None, st2) \<Rightarrow> (conditionCache, st2)))
       ([], st) [end_r T table + 1 .. e_r (getRange ws) - 1]"

text \<open>
  \<^verbatim>\<open>toolName\<close> and \<^verbatim>\<open>messageId\<close> (lines 570--576): declared without a value, assigned
  the cell beside the header only when the header's row was found.
\<close>

definition schemaValue :: "'t Table \<Rightarrow> 't \<Rightarrow> 'style Worksheet \<Rightarrow> string \<Rightarrow> string nullable" where
  "schemaValue T table ws header =
     (if getRow T table header \<noteq> - 1
      then Val (getValue ws (s_c (getRange ws) + 1) (getRow T table header))
      else Undefined)"

text \<open>
  \<^verbatim>\<open>parseSheet\<close>, lines 514--613: the schema returned and the result object.
  \<open>scanHeaders\<close> is its two header loops (lines 518--545): the row they end on and the
  table they fill; \<open>invalid_headers\<close> is the error of lines 549--554.
\<close>

definition scanHeaders ::
  "'style Modules \<Rightarrow> 't Table \<Rightarrow> 'style Worksheet \<Rightarrow> int \<times> 't" where
  "scanHeaders M T ws =
     (let rng = getRange ws;
          table0 = new_Table T (s_c rng) (s_r rng);
          (row, table1) = scanSchemaHeaders M T ws (s_r rng) table0
      in (row, scanFieldHeaders T ws row table1))"

definition invalid_headers :: "'style Worksheet \<Rightarrow> string \<Rightarrow> XlsxError" where
  "invalid_headers ws title =
     \<lparr>etype = ''error'',
      text = ''Invalid headers. Header '' @ [CHR 0x22] @ title @ [CHR 0x22] @ '' not set.'',
      message =
        Val (''Invalid headers. Header '' @ [CHR 0x22] @ title @ [CHR 0x22] @ '' not set.''),
      err_worksheet = Some (ws_name ws), err_cell = None, err_row = None, err_col = None\<rparr>"

definition parseSheet ::
  "'style Modules \<Rightarrow> 't Table \<Rightarrow> 'style Worksheet \<Rightarrow> XlsxResult \<Rightarrow> Schema \<times> XlsxResult" where
  "parseSheet M T ws res =
     (let schema = new_Schema\<lparr>s_name := ws_name ws, s_category := POLICY\<rparr>;
          rng = getRange ws;
          (row, table2) = scanHeaders M T ws
      in (case getErrorHeader T table2 of
            Some title \<Rightarrow> addError_schema (invalid_headers ws title) schema res
          | None \<Rightarrow>
              (let table = setEnd T (e_c rng) row table2;
                   schema1 =
                     (if getRow T table (dict M SCHEMA_NAME) \<noteq> - 1
                      then schema\<lparr>s_name :=
                             getValue ws (s_c rng) (getRow T table (dict M SCHEMA_NAME))\<rparr>
                      else schema);
                   schema2 =
                     (if getRow T table (dict M SCHEMA_DESCRIPTION) \<noteq> - 1
                      then schema1\<lparr>s_description :=
                             Val (getValue ws (s_c rng + 1)
                                    (getRow T table (dict M SCHEMA_DESCRIPTION)))\<rparr>
                      else schema1);
                   schema3 =
                     (if getRow T table (dict M SCHEMA_TYPE) \<noteq> - 1
                      then schema2\<lparr>s_entity :=
                             xlsxToEntity M
                               (getValue ws (s_c rng + 1)
                                  (getRow T table (dict M SCHEMA_TYPE)))\<rparr>
                      else schema2);
                   toolName = schemaValue T table ws (dict M SCHEMA_TOOL);
                   messageId = schemaValue T table ws (dict M SCHEMA_TOOL_ID)
               in if truthy_str toolName \<or> truthy_str messageId then
                    (schema3\<lparr>s_category := TOOL, s_messageId := messageId\<rparr>, res)
                  else
                    (let (flds, fieldCache, res1) = readFields M T table ws res;
                         (conditionCache, st) =
                           readConditions M T table ws fieldCache
                             \<lparr>sh_fields = flds, sh_conditions = [], sh_result = res1\<rparr>;
                         conditions =
                           map (\<lambda>a. condition_toJson (sh_conditions st ! a)) conditionCache;
                         schema4 = schema3\<lparr>s_fields := sh_fields st, s_conditions := conditions\<rparr>;
                         schema5 = schema4\<lparr>s_iri := updateIRI M schema4\<rparr>
                     in (schema5, sh_result st)))))"

text \<open>
  \<^verbatim>\<open>parse\<close>, lines 483--507. \<open>parse_step\<close> is the body of its loop (lines 489--496);
  \<^verbatim>\<open>parseSheet\<close> always returns a schema object, so the test \<^verbatim>\<open>if (schema)\<close> of line
  490 holds.

  The classes \<^verbatim>\<open>Workbook\<close> and \<^verbatim>\<open>Worksheet\<close> are not among the sources. Lines 485--487
  are the parameter \<open>read\<close>: it raises, or it gives what \<^verbatim>\<open>getWorksheets()\<close> returns.
  That value is consumed by \<^verbatim>\<open>for (const worksheet of worksheets)\<close>, and the whole loop
  is inside the \<^verbatim>\<open>try\<close> block: it is given by the worksheets it yields, in order, and
  by the raise that ends the iteration after them, if there is one (an array never
  raises: \<open>None\<close>).

  \<open>parse_try\<close> is the \<^verbatim>\<open>try\<close> block: the result object as the block leaves it and the
  raise that left it, if any. The handler of \<^verbatim>\<open>parse\<close> works on the result object as it is
  at the raise: it records the error, then clears. The result type of \<^verbatim>\<open>parse\<close> keeps
  \<open>Inl\<close> for a raise that would leave it.
\<close>

definition parse_step ::
  "'style Modules \<Rightarrow> 't Table \<Rightarrow> XlsxResult \<Rightarrow> 'style Worksheet \<Rightarrow> XlsxResult" where
  "parse_step M T res ws =
     (let (schema, res') = parseSheet M T ws res
      in if s_category schema = TOOL
         then addTool (ws_name ws) (s_name schema) (s_messageId schema) res'
         else addSchema (ws_name ws) (s_name schema) schema res')"

definition parse_try ::
  "'style Modules \<Rightarrow> 't Table \<Rightarrow> ('b \<Rightarrow> exn + 'style Worksheet list \<times> exn option) \<Rightarrow> 'b
     \<Rightarrow> XlsxResult \<Rightarrow> XlsxResult \<times> exn option" where
  "parse_try M T read buffer xlsxResult =
     (case read buffer of
        Inl error \<Rightarrow> (xlsxResult, Some error)
      | Inr (worksheets, raised) \<Rightarrow> (foldl (parse_step M T) xlsxResult worksheets, raised))"

definition parse ::
  "'style Modules \<Rightarrow> 't Table \<Rightarrow> ('b \<Rightarrow> exn + 'style Worksheet list \<times> exn option) \<Rightarrow> 'b
     \<Rightarrow> exn + XlsxResult" where
  "parse M T read buffer =
     (case parse_try M T read buffer new_XlsxResult of
        (xlsxResult, None) \<Rightarrow> Inr xlsxResult
      | (xlsxResult, Some error) \<Rightarrow>
          Inr (clear (addError (failed_to_parse_file error) xlsxResult)))"

text \<open>
  The table as line 558 leaves it (\<^verbatim>\<open>table.setEnd(endCol, row)\<close> after the two header
  loops): the table that every statement after the header validation reads.
\<close>

definition sheetTable :: "'style Modules \<Rightarrow> 't Table \<Rightarrow> 'style Worksheet \<Rightarrow> 't" where
  "sheetTable M T ws =
     (let (row, table2) = scanHeaders M T ws
      in setEnd T (e_c (getRange ws)) row table2)"

text \<open>A result object that holds the given errors and nothing else.\<close>

definition errors_only :: "XlsxError list \<Rightarrow> XlsxResult" where
  "errors_only errs =
     \<lparr>schemas = [], tools = [], r_errors = errs, toolsCache = [],
      schemaWorksheetCache = [], schemaNameCache = [], linkCache = []\<rparr>"

section \<open>Example inputs\<close>

text \<open>
  Concrete collaborators and worksheets, at which the general statements below are
  instantiated and the failing cases are evaluated.

  Modelled from the spec: the class \<^verbatim>\<open>Table\<close> of \<^verbatim>\<open>./models/header-utils\<close> is not among
  the sources. By sections 3 and 4.1 of the spec it maps header labels to the row or
  column where they were found, a lookup of a label that was not found gives \<open>-1\<close>, and
  \<^verbatim>\<open>getErrorHeader\<close> returns the first required header that has no column. The spec
  does not list the required headers: they are the parameter \<open>required_headers\<close>.
\<close>

record table_state =
  rows :: "(string, int) jsmap"
  cols :: "(string, int) jsmap"
  table_end :: int

definition schema_headers :: "Dictionary list" where
  "schema_headers = [SCHEMA_NAME, SCHEMA_DESCRIPTION, SCHEMA_TYPE, SCHEMA_TOOL, SCHEMA_TOOL_ID]"

definition field_headers :: "Dictionary list" where
  "field_headers =
     [REQUIRED_FIELD, FIELD_TYPE, PARAMETER, VISIBILITY, QUESTION, ALLOW_MULTIPLE_ANSWERS, ANSWER]"

definition lookup_or :: "(string, int) jsmap \<Rightarrow> string \<Rightarrow> int" where
  "lookup_or m k = (case map_get m k of Some i \<Rightarrow> i | None \<Rightarrow> - 1)"

definition spec_Table :: "(Dictionary \<Rightarrow> string) \<Rightarrow> Dictionary list \<Rightarrow> table_state Table" where
  "spec_Table d required_headers =
     \<lparr>new_Table = (\<lambda>c r. \<lparr>rows = [], cols = [], table_end = r\<rparr>),
      isName = (\<lambda>t title. title \<noteq> [] \<and> title \<notin> set (map d (schema_headers @ field_headers))),
      isSchemaHeader = (\<lambda>t title. title \<in> set (map d schema_headers)),
      isFieldHeader = (\<lambda>t title. title \<in> set (map d field_headers)),
      setRow = (\<lambda>title r t. t\<lparr>rows := map_set title r (rows t)\<rparr>),
      setCol = (\<lambda>title c t. t\<lparr>cols := map_set title c (cols t)\<rparr>),
      getErrorHeader = (\<lambda>t. find (\<lambda>h. map_get (cols t) h = None) (map d required_headers)),
      setEnd = (\<lambda>c r t. t\<lparr>table_end := r\<rparr>),
      getRow = (\<lambda>t title. lookup_or (rows t) title),
      getCol = (\<lambda>t title. lookup_or (cols t) title),
      end_r = table_end\<rparr>"

text \<open>
  String values for the members of \<^verbatim>\<open>Dictionary\<close>. \<open>Tool\<close>, \<open>Tool Id\<close>,
  \<open>Field Type\<close> and \<open>Answer\<close> are the labels of the examples in section 8 of the spec.
\<close>

fun dictionary :: "Dictionary \<Rightarrow> string" where
  "dictionary SCHEMA_NAME = ''Schema''"
| "dictionary SCHEMA_DESCRIPTION = ''Description''"
| "dictionary SCHEMA_TYPE = ''Schema Type''"
| "dictionary SCHEMA_TOOL = ''Tool''"
| "dictionary SCHEMA_TOOL_ID = ''Tool Id''"
| "dictionary REQUIRED_FIELD = ''Required Field''"
| "dictionary FIELD_TYPE = ''Field Type''"
| "dictionary PARAMETER = ''Parameter''"
| "dictionary VISIBILITY = ''Visibility''"
| "dictionary QUESTION = ''Question''"
| "dictionary ALLOW_MULTIPLE_ANSWERS = ''Allow Multiple Answers''"
| "dictionary ANSWER = ''Answer''"
| "dictionary AUTO_CALCULATE = ''Auto-Calculate''"

definition example_Table :: "table_state Table" where
  "example_Table =
     spec_Table dictionary [REQUIRED_FIELD, FIELD_TYPE, QUESTION, ALLOW_MULTIPLE_ANSWERS, ANSWER]"

text \<open>A small field-type registry, looked up by name.\<close>

definition field_type :: "string \<Rightarrow> string \<Rightarrow> IFieldTypes" where
  "field_type nm ty =
     \<lparr>ft_name = nm, ft_type = Val ty, ft_format = Undefined, ft_pattern = Undefined,
      ft_unit = Undefined, ft_unitSystem = Undefined, ft_customType = Undefined,
      ft_hidden = Val False, ft_isRef = Val False\<rparr>"

definition example_registry :: "IFieldTypes list" where
  "example_registry =
     [field_type ''String'' ''string'',
      (field_type ''Prefix'' ''number'')\<lparr>ft_unitSystem := Val ''prefix''\<rparr>,
      (field_type ''Postfix'' ''number'')\<lparr>ft_unitSystem := Val ''postfix''\<rparr>,
      (field_type ''Enum'' ''string'')\<lparr>ft_customType := Val ''enum''\<rparr>,
      (field_type ''Help Text'' ''null'')\<lparr>ft_customType := Val ''help-text''\<rparr>]"

text \<open>
  The trees that \<^verbatim>\<open>mathjs.parse\<close> returns for the two formulas of the example
  worksheet (the formulas are those of the comment at lines 870--873).
\<close>

definition example_parse :: "string \<Rightarrow> exn + MathNode" where
  "example_parse s =
     (if s = ''EXACT(G4,10)''
      then Inr (FunctionNode ''EXACT'' [SymbolNode ''G4'', ConstantNode (JNum 10)])
      else if s = ''NOT(EXACT(G4,10))''
      then Inr (FunctionNode ''NOT''
                  [FunctionNode ''EXACT'' [SymbolNode ''G4'', ConstantNode (JNum 10)]])
      else Inl (SyntaxError ''Unexpected input''))"

definition example_Modules :: "string Modules" where
  "example_Modules =
     \<lparr>dict = dictionary,
      findByName = (\<lambda>nm. find (\<lambda>t. ft_name t = nm) example_registry),
      xlsxToBoolean = (\<lambda>s. s = ''Yes''),
      xlsxToArray = (\<lambda>s multiple. [s]),
      xlsxToUnit = (\<lambda>fmt. Val fmt),
      xlsxToFont =
        (\<lambda>x. case x of
                Inl style \<Rightarrow> \<lparr>bold = False, color = style, size' = ''12''\<rparr>
              | Inr txt \<Rightarrow> \<lparr>bold = True, color = txt, size' = ''18''\<rparr>),
      xlsxToEntity = (\<lambda>s. Val s),
      mathjs_parse = example_parse,
      updateIRI = (\<lambda>s. Val (''#'' @ s_name s))\<rparr>"

text \<open>
  A worksheet given by the texts of its cells, row by row. A cell whose text starts with
  \<open>=\<close> is a formula cell; the address of a cell is its column letter and its row number
  counted from one; the range starts at the first cell and \<open>ncols\<close>, \<open>nrows\<close> are
  \<^verbatim>\<open>range.e.c\<close> and \<^verbatim>\<open>range.e.r\<close>.
\<close>

definition grid_text :: "string list list \<Rightarrow> int \<Rightarrow> int \<Rightarrow> string" where
  "grid_text grid c r =
     (if 0 \<le> r \<and> r < int (length grid) \<and> 0 \<le> c \<and> c < int (length (grid ! nat r))
      then grid ! nat r ! nat c else [])"

definition grid_Cell :: "string \<Rightarrow> string Cell" where
  "grid_Cell txt =
     \<lparr>getLink = None, getFormat = ''General'', getList = [''Yes'', ''No''],
      getFont = ''plain'',
      isFormulae = (txt \<noteq> [] \<and> hd txt = CHR ''=''),
      getFormulae = tl txt,
      isValue = (txt \<noteq> [] \<and> hd txt \<noteq> CHR ''=''),
      getCellValue = txt\<rparr>"

definition grid_Worksheet :: "string \<Rightarrow> int \<Rightarrow> int \<Rightarrow> string list list \<Rightarrow> string Worksheet" where
  "grid_Worksheet nm ncols nrows grid =
     \<lparr>ws_name = nm,
      getRange = \<lparr>s_c = 0, s_r = 0, e_c = ncols, e_r = nrows\<rparr>,
      getValue = grid_text grid,
      getPath = (\<lambda>c r. [''ABCDEFGHIJ'' ! nat c] @ string_of_nat (nat (r + 1))),
      getCell = (\<lambda>c r. grid_Cell (grid_text grid c r)),
      outColumnRange = (\<lambda>c. c < 0 \<or> ncols \<le> c)\<rparr>"

definition field_header_row :: "string list" where
  "field_header_row =
     [''Required Field'', ''Field Type'', ''Parameter'', ''Visibility'', ''Question'',
      ''Allow Multiple Answers'', ''Answer'']"

text \<open>
  Three fields \<open>G4\<close>, \<open>G5\<close>, \<open>G6\<close>; the second is visible when the first equals 10, the
  third when it does not.
\<close>

definition conditions_sheet :: "string Worksheet" where
  "conditions_sheet =
     grid_Worksheet ''Conditions'' 7 6
       [[''Conditions''],
        [''Description'', ''Three fields''],
        field_header_row,
        [''Yes'', ''String'', [], [], ''A'', ''No'', ''a''],
        [''No'', ''String'', [], ''=EXACT(G4,10)'', ''B'', ''No'', ''b''],
        [''No'', ''String'', [], ''=NOT(EXACT(G4,10))'', ''C'', ''No'', ''c'']]"

text \<open>
  An \<open>Enum\<close> field whose parameter cell holds three lines, and a row with an empty type
  cell.
\<close>

definition sensor_sheet :: "string Worksheet" where
  "sensor_sheet =
     grid_Worksheet ''Sensor'' 7 5
       [[''Sensor''],
        [''Description'', ''A sensor''],
        field_header_row,
        [''Yes'', ''Enum'', ''Low'' @ [CHR 0x0A] @ ''Medium'' @ [CHR 0x0A] @ ''High'', [],
         ''Level'', ''No'', ''Low''],
        [''No'', [], [], [], ''Untyped'', ''No'', ''x'']]"

definition sensor_table :: table_state where
  "sensor_table = snd (scanHeaders example_Modules example_Table sensor_sheet)"

text \<open>
  A worksheet that declares a tool and has the field headers, and one that declares the
  same tool and has no field header row.
\<close>

definition tool_sheet :: "string Worksheet" where
  "tool_sheet =
     grid_Worksheet ''CO2'' 7 5
       [[''CO2''],
        [''Tool'', ''CO2Tool''],
        [''Tool Id'', ''0.0.555''],
        field_header_row,
        [''Yes'', ''String'', [], [], ''Ignored'', ''No'', ''x'']]"

definition bare_tool_sheet :: "string Worksheet" where
  "bare_tool_sheet =
     grid_Worksheet ''CO2'' 2 3
       [[''CO2''],
        [''Tool'', ''CO2Tool''],
        [''Tool Id'', ''0.0.555'']]"

text \<open>A worksheet whose header row has no \<open>Answer\<close> column.\<close>

definition broken_sheet :: "string Worksheet" where
  "broken_sheet =
     grid_Worksheet ''Broken'' 6 4
       [[''Broken''],
        [''Description'', ''No answer column''],
        [''Required Field'', ''Field Type'', ''Parameter'', ''Visibility'', ''Question'',
         ''Allow Multiple Answers''],
        [''Yes'', ''String'', [], [], ''Ignored'', ''No'']]"

text \<open>
  A field of type \<open>Missing\<close>, which is neither a registered field type nor the name of a
  worksheet of the document, beside a \<open>String\<close> field.
\<close>

definition reference_sheet :: "string Worksheet" where
  "reference_sheet =
     grid_Worksheet ''Site'' 7 5
       [[''Site''],
        [''Description'', ''A site''],
        field_header_row,
        [''Yes'', ''Missing'', [], [], ''Device'', ''No'', []],
        [''No'', ''String'', [], [], ''Comment'', ''No'', ''ok'']]"

text \<open>
  A reference-typed \<open>#GeoJSON\<close> field, and a result object whose caches would resolve
  the key \<open>#GeoJSON\<close> to another schema if they were consulted.
\<close>

definition geo_field :: SchemaField where
  "geo_field = new_SchemaField\<lparr>name := ''G4'', type := Val ''#GeoJSON'', isRef := Val True\<rparr>"

definition geo_result :: XlsxResult where
  "geo_result =
     new_XlsxResult
       \<lparr>linkCache := [(''#GeoJSON'', \<lparr>link_name = ''Other'', link_worksheet = Null\<rparr>)],
        schemaNameCache :=
          [(''Other'', \<lparr>cache_name = ''Other'', cache_iri = Val ''#other'',
                        cache_toolId = Undefined\<rparr>)]\<rparr>"

section \<open>Properties\<close>

subsection \<open>Argument order of \<^verbatim>\<open>EXACT\<close>\<close>

text \<open>
  C1. The claim is that \<^verbatim>\<open>EXACT(ref, literal)\<close> and \<^verbatim>\<open>EXACT(literal, ref)\<close> give the
  same formula condition, with the field reference as driving field and the literal as
  comparison value. The second branch of \<^verbatim>\<open>parsFn\<close> does not swap its operands: for
  \<^verbatim>\<open>EXACT(10,G11)\<close> the driving field is the literal \<^verbatim>\<open>10\<close> and the comparison value
  is the name \<^verbatim>\<open>G11\<close>, whereas \<^verbatim>\<open>EXACT(G11,10)\<close> gives field \<^verbatim>\<open>G11\<close> and value
  \<^verbatim>\<open>10\<close>. The theorem evaluates both, at a parser that returns the two trees.
\<close>

theorem parseCondition_exact_reversed:
  "parseCondition
     (\<lambda>s. Inr (FunctionNode ''EXACT'' [ConstantNode (JNum 10), SymbolNode ''G11'']))
     (Text ''EXACT(10,G11)'')
   = Inr (Some (Formulae (JNum 10) (JStr ''G11'') False))
   \<and> parseCondition
     (\<lambda>s. Inr (FunctionNode ''EXACT'' [SymbolNode ''G11'', ConstantNode (JNum 10)]))
     (Text ''EXACT(G11,10)'')
   = Inr (Some (Formulae (JStr ''G11'') (JNum 10) False))"
  by (simp add: parseCondition_def)

subsection \<open>Conditions on the same driving field and value\<close>

text \<open>
  C2. The claim is that \<^verbatim>\<open>EXACT(A,v)\<close> on a field B and \<^verbatim>\<open>NOT(EXACT(A,v))\<close> on a field
  C give exactly one condition in the sheet's condition list, with the dependents B
  (not inverted) and C (inverted). \<^verbatim>\<open>readCondition\<close> finds the condition of the first
  row when it reads the second, adds C to it, and returns it; \<^verbatim>\<open>parseSheet\<close> pushes
  whatever is returned, so the condition is in the list twice. The theorem evaluates
  \<^verbatim>\<open>parseSheet\<close> on the worksheet \<open>conditions_sheet\<close>: field 0 is \<open>G4\<close>, fields 1 and 2
  are \<open>G5\<close> and \<open>G6\<close>.
\<close>

theorem parseSheet_conditions_pushed_twice:
  "s_conditions (fst (parseSheet example_Modules example_Table conditions_sheet new_XlsxResult))
   = [\<lparr>c_field = 0, c_value = JNum 10, c_fields = [(Some 1, False), (Some 2, True)]\<rparr>,
      \<lparr>c_field = 0, c_value = JNum 10, c_fields = [(Some 1, False), (Some 2, True)]\<rparr>]
   \<and> map name (s_fields (fst (parseSheet example_Modules example_Table conditions_sheet
                                new_XlsxResult)))
     = [''G4'', ''G5'', ''G6'']"
  by code_simp

subsection \<open>A reference that resolves to nothing\<close>

text \<open>
  C3. The claim is that after \<^verbatim>\<open>updateSchemas\<close> a reference-typed field whose link
  resolves to no IRI has a \<open>Sub-schema not found\<close> error and \<^verbatim>\<open>field.type === null\<close>,
  and that its siblings are unchanged. \<^verbatim>\<open>getSubSchema\<close> assigns \<^verbatim>\<open>null\<close> and then
  ends without a \<^verbatim>\<open>return\<close>; \<^verbatim>\<open>updateSchemas\<close> assigns the value of the call, which is
  \<^verbatim>\<open>undefined\<close>, to \<^verbatim>\<open>field.type\<close>. The theorem parses the worksheet
  \<open>reference_sheet\<close> and runs the final pass: the field \<open>G4\<close> has the error and the type
  \<^verbatim>\<open>undefined\<close>, the sibling \<open>G5\<close> keeps its type and has no error.
\<close>

theorem updateSchemas_unresolved_reference:
  "(case parse example_Modules example_Table (\<lambda>buffer. Inr ([reference_sheet], None)) () of
      Inl error \<Rightarrow> False
    | Inr res \<Rightarrow>
        map (\<lambda>fld. (name fld, type fld, map text (errors fld)))
          (concat (map s_fields (schemas (updateSchemas (\<lambda>ss s. None) res))))
        = [(''G4'', Undefined, [''Sub-schema (link_0) not found.'']),
           (''G5'', Val ''string'', [])])"
  by code_simp

text \<open>
  The same for every field and every result object: the step of the final pass on a
  reference-typed field that resolves to nothing records the error and leaves the type
  \<^verbatim>\<open>undefined\<close>; on a field that is not reference-typed it changes nothing.
\<close>

lemma updateField_unresolved:
  assumes "truthy_bool (isRef fld)" and "type fld \<noteq> Val ''#GeoJSON''"
    and "resolveLink res (type fld) = None"
  shows "updateField fld res =
           (fld\<lparr>errors := errors fld @ [sub_schema_not_found fld], type := Undefined\<rparr>,
            res\<lparr>r_errors := r_errors res @ [sub_schema_not_found fld]\<rparr>)"
  using assms
  by (simp add: updateField_def getSubSchema_def addError_field_def addError_def)

lemma updateField_not_reference:
  assumes "\<not> truthy_bool (isRef fld)"
  shows "updateField fld res = (fld, res)"
  using assms by (simp add: updateField_def)

subsection \<open>Missing required headers\<close>

text \<open>
  C4. When \<^verbatim>\<open>getErrorHeader()\<close> returns a header for the table that the two header
  loops have filled, \<^verbatim>\<open>parseSheet\<close> returns a schema that has the worksheet's name, the
  category \<^verbatim>\<open>POLICY\<close>, no fields and the one error \<open>Invalid headers\<close>; the result object
  gains exactly that error and nothing else, so no field row was read.
\<close>

theorem parseSheet_invalid_headers:
  assumes "getErrorHeader T (snd (scanHeaders M T ws)) = Some title"
  shows "parseSheet M T ws res =
           (new_Schema\<lparr>s_name := ws_name ws, s_category := POLICY,
                       s_errors := [invalid_headers ws title]\<rparr>,
            res\<lparr>r_errors := r_errors res @ [invalid_headers ws title]\<rparr>)
         \<and> s_fields (fst (parseSheet M T ws res)) = []"
proof -
  obtain row table2 where scan: "scanHeaders M T ws = (row, table2)"
    by (cases "scanHeaders M T ws")
  with assms have err: "getErrorHeader T table2 = Some title"
    by simp
  have "parseSheet M T ws res =
          (new_Schema\<lparr>s_name := ws_name ws, s_category := POLICY,
                      s_errors := [invalid_headers ws title]\<rparr>,
           res\<lparr>r_errors := r_errors res @ [invalid_headers ws title]\<rparr>)"
    using scan err
    by (simp add: parseSheet_def addError_schema_def addError_def new_Schema_def)
  then show ?thesis
    by (simp add: new_Schema_def)
qed

text \<open>The worksheet \<open>broken_sheet\<close> has no \<open>Answer\<close> column.\<close>

theorem parseSheet_invalid_headers_witness:
  "parseSheet example_Modules example_Table broken_sheet new_XlsxResult =
     (new_Schema\<lparr>s_name := ''Broken'', s_category := POLICY,
                 s_errors := [invalid_headers broken_sheet ''Answer'']\<rparr>,
      new_XlsxResult\<lparr>r_errors := [invalid_headers broken_sheet ''Answer'']\<rparr>)
   \<and> s_fields (fst (parseSheet example_Modules example_Table broken_sheet new_XlsxResult)) = []
   \<and> text (invalid_headers broken_sheet ''Answer'')
     = ''Invalid headers. Header '' @ [CHR 0x22] @ ''Answer'' @ [CHR 0x22] @ '' not set.''"
proof -
  have h: "getErrorHeader example_Table
             (snd (scanHeaders example_Modules example_Table broken_sheet)) = Some ''Answer''"
    by code_simp
  have n: "ws_name broken_sheet = ''Broken''"
    by (simp add: broken_sheet_def grid_Worksheet_def)
  from parseSheet_invalid_headers [OF h, of new_XlsxResult] n show ?thesis
    by (simp add: new_XlsxResult_def new_Schema_def invalid_headers_def)
qed

subsection \<open>Precedence of the parameter cell\<close>

text \<open>
  C5. For a row whose type label the registry knows, \<^verbatim>\<open>readField\<close> returns a field and
  records no error. Its type, format, pattern, unit system and custom type are the
  registry entry's. Its unit is, for \<open>Prefix\<close> and \<open>Postfix\<close>, the parameter when the
  parameter cell is not empty and otherwise the unit of the answer cell's format; for every
  other entry it is the registry's. For \<open>Enum\<close> its values are the lines of the parameter
  when that is not empty and otherwise the answer cell's validation list. For
  \<open>Help Text\<close> its font is the font of the parameter when that is not empty and otherwise
  that of the question cell, and bold, colour and size are those of that one font: the
  parameter replaces the derived value, it is never merged with it.
\<close>

theorem readField_parameter_overrides:
  fixes M :: "'style Modules" and T :: "'t Table" and table :: 't
    and ws :: "'style Worksheet" and row :: int
  defines "param \<equiv> getValue ws (getCol T table (dict M PARAMETER)) row"
    and "answerCell \<equiv> getCell ws (getCol T table (dict M ANSWER)) row"
    and "questionCell \<equiv> getCell ws (getCol T table (dict M QUESTION)) row"
  assumes "findByName M (getValue ws (getCol T table (dict M FIELD_TYPE)) row) = Some ft"
  shows "\<exists>fld. readField M T table ws row res = (Some fld, res)
           \<and> type fld = ft_type ft \<and> format fld = ft_format ft \<and> pattern fld = ft_pattern ft
           \<and> unitSystem fld = ft_unitSystem ft \<and> customType fld = ft_customType ft
           \<and> unit fld =
               (if ft_name ft = ''Prefix'' \<or> ft_name ft = ''Postfix''
                then (if param \<noteq> [] then Val param else xlsxToUnit M (getFormat answerCell))
                else ft_unit ft)
           \<and> enum fld =
               (if ft_name ft = ''Enum''
                then Some (if param \<noteq> [] then split_newline param else getList answerCell)
                else None)
           \<and> font fld =
               (if ft_name ft = ''Help Text''
                then Some (xlsxToFont M
                             (if param \<noteq> [] then Inr param else Inl (getFont questionCell)))
                else None)
           \<and> textBold fld = map_option bold (font fld)
           \<and> textColor fld = map_option color (font fld)
           \<and> textSize fld = map_option size' (font fld)"
  using assms
  by (simp add: readField_def readFieldParams_def Let_def setFont_def new_SchemaField_def)

text \<open>
  Row 3 of \<open>sensor_sheet\<close>: an \<open>Enum\<close> whose parameter cell holds
  \<^verbatim>\<open>Low\nMedium\nHigh\<close>, while the validation list of the answer cell is \<open>Yes\<close>, \<open>No\<close>.
\<close>

theorem readField_parameter_overrides_witness:
  "\<exists>fld. readField example_Modules example_Table sensor_table sensor_sheet 3 new_XlsxResult
           = (Some fld, new_XlsxResult)
         \<and> enum fld = Some [''Low'', ''Medium'', ''High'']
         \<and> type fld = Val ''string'' \<and> customType fld = Val ''enum'' \<and> unit fld = Undefined"
proof -
  have h: "findByName example_Modules
             (getValue sensor_sheet
                (getCol example_Table sensor_table (dict example_Modules FIELD_TYPE)) 3)
           = Some ((field_type ''Enum'' ''string'')\<lparr>ft_customType := Val ''enum''\<rparr>)"
    by code_simp
  have p: "getValue sensor_sheet
             (getCol example_Table sensor_table (dict example_Modules PARAMETER)) 3
           = ''Low'' @ [CHR 0x0A] @ ''Medium'' @ [CHR 0x0A] @ ''High''"
    by code_simp
  have s: "split_newline (''Low'' @ [CHR 0x0A] @ ''Medium'' @ [CHR 0x0A] @ ''High'')
           = [''Low'', ''Medium'', ''High'']"
    by simp
  from readField_parameter_overrides [OF h, of new_XlsxResult] p s show ?thesis
    by (auto simp add: field_type_def)
qed

subsection \<open>An empty type cell\<close>

text \<open>
  C6. For a row whose type cell is empty (and no registry entry has the empty name),
  \<^verbatim>\<open>readField\<close> returns a field object, not \<^verbatim>\<open>null\<close>: its type is \<^verbatim>\<open>null\<close>, its
  name, description, required flag and array flag are read from the row, and its only
  error is \<open>Unknown field type.\<close>, which is also the one error added to the result object.
\<close>

theorem readField_empty_type:
  assumes "getValue ws (getCol T table (dict M FIELD_TYPE)) row = []"
    and "findByName M [] = None"
  shows "\<exists>fld. readField M T table ws row res =
                 (Some fld,
                  res\<lparr>r_errors := r_errors res @ [unknown_field_type M T table ws row]\<rparr>)
           \<and> type fld = Null
           \<and> errors fld = [unknown_field_type M T table ws row]
           \<and> name fld = getPath ws (getCol T table (dict M ANSWER)) row
           \<and> description fld = getValue ws (getCol T table (dict M QUESTION)) row
           \<and> required fld =
               xlsxToBoolean M (getValue ws (getCol T table (dict M REQUIRED_FIELD)) row)
           \<and> isArray fld =
               xlsxToBoolean M
                 (getValue ws (getCol T table (dict M ALLOW_MULTIPLE_ANSWERS)) row)"
  using assms
  by (simp add: readField_def Let_def addError_field_def addError_def new_SchemaField_def)

text \<open>Row 4 of \<open>sensor_sheet\<close> has an empty type cell.\<close>

theorem readField_empty_type_witness:
  "(\<exists>fld. readField example_Modules example_Table sensor_table sensor_sheet 4 new_XlsxResult =
            (Some fld,
             new_XlsxResult
               \<lparr>r_errors :=
                  [unknown_field_type example_Modules example_Table sensor_table sensor_sheet 4]\<rparr>)
          \<and> type fld = Null \<and> name fld = ''G5'' \<and> description fld = ''Untyped'')
   \<and> text (unknown_field_type example_Modules example_Table sensor_table sensor_sheet 4)
     = ''Unknown field type.''"
proof -
  have h1: "getValue sensor_sheet
              (getCol example_Table sensor_table (dict example_Modules FIELD_TYPE)) 4 = []"
    by code_simp
  have h2: "findByName example_Modules [] = None"
    by code_simp
  have p: "getPath sensor_sheet
             (getCol example_Table sensor_table (dict example_Modules ANSWER)) 4 = ''G5''"
    by code_simp
  have q: "getValue sensor_sheet
             (getCol example_Table sensor_table (dict example_Modules QUESTION)) 4 = ''Untyped''"
    by code_simp
  from readField_empty_type [OF h1 h2, of new_XlsxResult] p q show ?thesis
    by (auto simp add: new_XlsxResult_def unknown_field_type_def)
qed

subsection \<open>Tool worksheets\<close>

text \<open>
  C7, as amended. For a worksheet that passes the header validation
  (\<^verbatim>\<open>getErrorHeader()\<close> returns \<^verbatim>\<open>null\<close>) and whose \<open>Tool\<close> or \<open>Tool Id\<close> cell is not
  empty, \<^verbatim>\<open>parseSheet\<close> returns a schema of category \<^verbatim>\<open>TOOL\<close> whose \<^verbatim>\<open>messageId\<close> is
  the value of the \<open>Tool Id\<close> cell (\<^verbatim>\<open>undefined\<close> when the sheet has no \<open>Tool Id\<close> row),
  with no fields and no conditions, and the result object is as it was: no field row was
  read.
\<close>

theorem parseSheet_tool:
  assumes "getErrorHeader T (snd (scanHeaders M T ws)) = None"
    and "truthy_str (schemaValue T (sheetTable M T ws) ws (dict M SCHEMA_TOOL))
         \<or> truthy_str (schemaValue T (sheetTable M T ws) ws (dict M SCHEMA_TOOL_ID))"
  shows "s_category (fst (parseSheet M T ws res)) = TOOL
         \<and> s_messageId (fst (parseSheet M T ws res))
           = schemaValue T (sheetTable M T ws) ws (dict M SCHEMA_TOOL_ID)
         \<and> s_fields (fst (parseSheet M T ws res)) = []
         \<and> s_conditions (fst (parseSheet M T ws res)) = []
         \<and> snd (parseSheet M T ws res) = res"
proof -
  obtain row table2 where scan: "scanHeaders M T ws = (row, table2)"
    by (cases "scanHeaders M T ws")
  from scan assms(1) have ok: "getErrorHeader T table2 = None"
    by simp
  from scan have tab: "sheetTable M T ws = setEnd T (e_c (getRange ws)) row table2"
    by (simp add: sheetTable_def)
  from assms(2) tab
  have tool: "truthy_str (schemaValue T (setEnd T (e_c (getRange ws)) row table2) ws
                            (dict M SCHEMA_TOOL))
              \<or> truthy_str (schemaValue T (setEnd T (e_c (getRange ws)) row table2) ws
                              (dict M SCHEMA_TOOL_ID))"
    by simp
  show ?thesis
    using scan ok tool tab
    by (simp add: parseSheet_def Let_def new_Schema_def)
qed

text \<open>
  The worksheet \<open>tool_sheet\<close> declares \<open>Tool = CO2Tool\<close> and \<open>Tool Id = 0.0.555\<close>, has
  the field headers and one field row below them.
\<close>

theorem parseSheet_tool_witness:
  "s_category (fst (parseSheet example_Modules example_Table tool_sheet new_XlsxResult)) = TOOL
   \<and> s_messageId (fst (parseSheet example_Modules example_Table tool_sheet new_XlsxResult))
     = Val ''0.0.555''
   \<and> s_fields (fst (parseSheet example_Modules example_Table tool_sheet new_XlsxResult)) = []
   \<and> snd (parseSheet example_Modules example_Table tool_sheet new_XlsxResult) = new_XlsxResult"
proof -
  have h1: "getErrorHeader example_Table
              (snd (scanHeaders example_Modules example_Table tool_sheet)) = None"
    by code_simp
  have h2: "schemaValue example_Table (sheetTable example_Modules example_Table tool_sheet)
              tool_sheet (dict example_Modules SCHEMA_TOOL) = Val ''CO2Tool''"
    by code_simp
  have h3: "schemaValue example_Table (sheetTable example_Modules example_Table tool_sheet)
              tool_sheet (dict example_Modules SCHEMA_TOOL_ID) = Val ''0.0.555''"
    by code_simp
  have h: "truthy_str (schemaValue example_Table
                         (sheetTable example_Modules example_Table tool_sheet)
                         tool_sheet (dict example_Modules SCHEMA_TOOL))
           \<or> truthy_str (schemaValue example_Table
                           (sheetTable example_Modules example_Table tool_sheet)
                           tool_sheet (dict example_Modules SCHEMA_TOOL_ID))"
    by (simp add: h2)
  from parseSheet_tool [OF h1 h, of new_XlsxResult] h3 show ?thesis
    by simp
qed

text \<open>
  The claim as stated has no condition on the headers. The worksheet \<open>bare_tool_sheet\<close>
  declares the same tool and has no field header row: its \<open>Tool\<close> and \<open>Tool Id\<close> cells
  are there, and \<^verbatim>\<open>parseSheet\<close> stops at the header validation with a schema that is
  not of category \<^verbatim>\<open>TOOL\<close> and has no \<^verbatim>\<open>messageId\<close>.
\<close>

theorem parseSheet_tool_counterexample:
  "truthy_str (schemaValue example_Table (sheetTable example_Modules example_Table bare_tool_sheet)
                 bare_tool_sheet (dict example_Modules SCHEMA_TOOL))
   \<and> schemaValue example_Table (sheetTable example_Modules example_Table bare_tool_sheet)
       bare_tool_sheet (dict example_Modules SCHEMA_TOOL_ID) = Val ''0.0.555''
   \<and> s_category (fst (parseSheet example_Modules example_Table bare_tool_sheet new_XlsxResult))
     \<noteq> TOOL
   \<and> s_messageId (fst (parseSheet example_Modules example_Table bare_tool_sheet new_XlsxResult))
     = Undefined
   \<and> map text (r_errors (snd (parseSheet example_Modules example_Table bare_tool_sheet
                                 new_XlsxResult)))
     = [''Invalid headers. Header '' @ [CHR 0x22] @ ''Required Field'' @ [CHR 0x22]
        @ '' not set.'']"
  by code_simp

subsection \<open>A document that cannot be parsed\<close>

text \<open>
  What the handler of \<^verbatim>\<open>parse\<close> makes of any result object: the schemas, the tools and
  the four caches are emptied, the errors recorded so far are kept and the new one
  follows them.
\<close>

lemma clear_addError:
  "clear (addError error res) = errors_only (r_errors res @ [error])"
  by (cases res) (simp add: clear_def addError_def errors_only_def)

text \<open>
  C8. \<^verbatim>\<open>parse\<close> never raises, and its result is determined by what happens inside the
  \<^verbatim>\<open>try\<close> block. When the workbook cannot be read, the result holds the one error
  \<open>Failed to parse file.\<close> and nothing else. When the block is left by a raise after
  some worksheets have been parsed, everything they accumulated (schemas, tools, the four
  caches) is cleared and the result holds only errors: those already recorded, followed
  by \<open>Failed to parse file.\<close>. When nothing raises, the result is what the loop has
  accumulated. A result that holds only errors serializes to empty \<^verbatim>\<open>schemas\<close> and
  \<^verbatim>\<open>tools\<close> and those errors.
\<close>

theorem parse_never_throws:
  "parse M T read buffer =
     Inr (case read buffer of
            Inl error \<Rightarrow> errors_only [failed_to_parse_file error]
          | Inr (worksheets, None) \<Rightarrow> foldl (parse_step M T) new_XlsxResult worksheets
          | Inr (worksheets, Some error) \<Rightarrow>
              errors_only
                (r_errors (foldl (parse_step M T) new_XlsxResult worksheets)
                 @ [failed_to_parse_file error]))
   \<and> toJson (errors_only errs)
     = \<lparr>json_schemas = [], json_tools = [], json_errors = errs\<rparr>"
proof -
  have fresh: "r_errors new_XlsxResult = []"
    by (simp add: new_XlsxResult_def)
  have result: "parse M T read buffer =
     Inr (case read buffer of
            Inl error \<Rightarrow> errors_only [failed_to_parse_file error]
          | Inr (worksheets, None) \<Rightarrow> foldl (parse_step M T) new_XlsxResult worksheets
          | Inr (worksheets, Some error) \<Rightarrow>
              errors_only
                (r_errors (foldl (parse_step M T) new_XlsxResult worksheets)
                 @ [failed_to_parse_file error]))"
  proof (cases "read buffer")
    case (Inl error)
    then show ?thesis
      by (simp add: parse_def parse_try_def clear_addError fresh)
  next
    case (Inr yielded)
    then show ?thesis
      by (cases yielded; cases "snd yielded")
         (simp_all add: parse_def parse_try_def clear_addError)
  qed
  have json: "toJson (errors_only errs)
      = \<lparr>json_schemas = [], json_tools = [], json_errors = errs\<rparr>"
    by (simp add: toJson_def errors_only_def map_values_def)
  from result json show ?thesis
    by simp
qed

text \<open>
  Three documents. The first cannot be read, and the error thrown has an empty message.
  The second yields the worksheet \<open>broken_sheet\<close>, whose parse records
  \<open>Invalid headers\<close> and adds a schema and two cache entries, and then raises: the
  schema and the cache entries are gone, the earlier error is kept. The third yields the
  same worksheet and ends: the schema is there.
\<close>

theorem parse_never_throws_witness:
  "parse example_Modules example_Table (\<lambda>buffer. Inl (Error [])) ()
     = Inr (errors_only [failed_to_parse_file (Error [])])
   \<and> text (failed_to_parse_file (Error [])) = ''Failed to parse file.''
   \<and> message (failed_to_parse_file (Error [])) = Val ''Error''
   \<and> parse example_Modules example_Table
       (\<lambda>buffer. Inr ([broken_sheet], Some (Error ''Not a worksheet''))) ()
     = Inr (errors_only
              [invalid_headers broken_sheet ''Answer'',
               failed_to_parse_file (Error ''Not a worksheet'')])
   \<and> map s_name
       (schemas (foldl (parse_step example_Modules example_Table) new_XlsxResult [broken_sheet]))
     = [''Broken'']
   \<and> map fst
       (schemaWorksheetCache
          (foldl (parse_step example_Modules example_Table) new_XlsxResult [broken_sheet]))
     = [''Broken'']
   \<and> (case parse example_Modules example_Table (\<lambda>buffer. Inr ([broken_sheet], None)) () of
        Inl error \<Rightarrow> False
      | Inr res \<Rightarrow> map s_name (schemas res) = [''Broken''])"
proof -
  have acc_errors:
    "r_errors (foldl (parse_step example_Modules example_Table) new_XlsxResult [broken_sheet])
     = [invalid_headers broken_sheet ''Answer'']"
    by code_simp
  have acc_schemas:
    "map s_name
       (schemas (foldl (parse_step example_Modules example_Table) new_XlsxResult [broken_sheet]))
     = [''Broken'']"
    by code_simp
  have acc_cache:
    "map fst
       (schemaWorksheetCache
          (foldl (parse_step example_Modules example_Table) new_XlsxResult [broken_sheet]))
     = [''Broken'']"
    by code_simp
  have unread:
    "parse example_Modules example_Table (\<lambda>buffer. Inl (Error [])) ()
     = Inr (errors_only [failed_to_parse_file (Error [])])"
    using parse_never_throws [of example_Modules example_Table "\<lambda>buffer. Inl (Error [])" "()"]
    by simp
  have interrupted:
    "parse example_Modules example_Table
       (\<lambda>buffer. Inr ([broken_sheet], Some (Error ''Not a worksheet''))) ()
     = Inr (errors_only
              [invalid_headers broken_sheet ''Answer'',
               failed_to_parse_file (Error ''Not a worksheet'')])"
    using parse_never_throws
      [of example_Modules example_Table
          "\<lambda>buffer. Inr ([broken_sheet], Some (Error ''Not a worksheet''))" "()"]
      acc_errors
    by simp
  have finished:
    "parse example_Modules example_Table (\<lambda>buffer. Inr ([broken_sheet], None)) ()
     = Inr (foldl (parse_step example_Modules example_Table) new_XlsxResult [broken_sheet])"
    using parse_never_throws
      [of example_Modules example_Table "\<lambda>buffer. Inr ([broken_sheet], None)" "()"]
    by simp
  have msg: "text (failed_to_parse_file (Error [])) = ''Failed to parse file.''
      \<and> message (failed_to_parse_file (Error [])) = Val ''Error''"
    by (simp add: failed_to_parse_file_def name_and_message_def)
  from unread interrupted finished acc_schemas acc_cache msg show ?thesis
    by simp
qed

subsection \<open>What \<^verbatim>\<open>clear\<close> keeps\<close>

text \<open>
  C9. \<^verbatim>\<open>clear()\<close> empties the schemas, the tools and the four caches and leaves the
  error list as it is: the errors that \<^verbatim>\<open>toJson()\<close> serializes afterwards are those
  recorded before.
\<close>

theorem clear_keeps_errors:
  "schemas (clear res) = [] \<and> tools (clear res) = [] \<and> toolsCache (clear res) = []
   \<and> schemaWorksheetCache (clear res) = [] \<and> schemaNameCache (clear res) = []
   \<and> linkCache (clear res) = [] \<and> r_errors (clear res) = r_errors res
   \<and> json_errors (toJson (clear res)) = r_errors res"
  by (simp add: clear_def toJson_def)

subsection \<open>The type \<^verbatim>\<open>#GeoJSON\<close>\<close>

text \<open>
  C10. For a field whose type is the string \<^verbatim>\<open>#GeoJSON\<close>, \<^verbatim>\<open>getSubSchema\<close> returns
  \<^verbatim>\<open>#GeoJSON\<close> and leaves the field and the result object as they are, whatever the
  caches hold; the step of the final pass on that field therefore changes neither the
  field nor the result object, whether the field is reference-typed or not.
\<close>

theorem getSubSchema_GeoJSON:
  assumes "type fld = Val ''#GeoJSON''"
  shows "getSubSchema fld res = (Val ''#GeoJSON'', fld, res) \<and> updateField fld res = (fld, res)"
proof -
  have ret: "getSubSchema fld res = (Val ''#GeoJSON'', fld, res)"
    using assms by (simp add: getSubSchema_def)
  have same: "fld\<lparr>type := Val ''#GeoJSON''\<rparr> = fld"
    using assms by (cases fld) simp
  show ?thesis
    using ret same by (simp add: updateField_def)
qed

text \<open>
  In \<open>geo_result\<close> the link cache has an entry under the key \<^verbatim>\<open>#GeoJSON\<close> that resolves
  to the IRI \<open>#other\<close>; the field keeps \<^verbatim>\<open>#GeoJSON\<close>.
\<close>

theorem getSubSchema_GeoJSON_witness:
  "getSubSchema geo_field geo_result = (Val ''#GeoJSON'', geo_field, geo_result)
   \<and> updateField geo_field geo_result = (geo_field, geo_result)
   \<and> resolveLink geo_result (type geo_field) = Some ''#other''"
proof -
  have h: "type geo_field = Val ''#GeoJSON''"
    by (simp add: geo_field_def)
  have r: "resolveLink geo_result (type geo_field) = Some ''#other''"
    by (simp add: geo_field_def geo_result_def resolveLink_def map_get_def or_else_def
        new_XlsxResult_def)
  from getSubSchema_GeoJSON [OF h, of geo_result] r show ?thesis
    by simp
qed

end
